theory Spec2Isabelle
  imports Complex_Main "HOL-Library.Multiset" "HOL-Library.Product_Lexorder"
begin

section \<open>The schema graph, as the report code reads it\<close>

text \<open>
  The classes of \<^verbatim>\<open>flaqes.core.schema_graph\<close> are used by
  \<^verbatim>\<open>flaqes/report/mermaid.py\<close> and built by its tests with the keyword arguments
  below. The enumeration of data type categories is declared elsewhere and is never read by
  the diagram generator, so it is the type parameter \<open>'c\<close>.
\<close>

record 'c DataType =
  raw :: string
  category :: 'c

record 'c Column =
  name :: string
  data_type :: "'c DataType"
  nullable :: bool

record PrimaryKey =
  name :: string
  columns :: "string list"

record ForeignKey =
  name :: string
  columns :: "string list"
  target_table :: string
  target_schema :: string
  target_columns :: "string list"

record 'c Table =
  name :: string
  schema :: string
  columns :: "'c Column list"
  primary_key :: "PrimaryKey option"
  foreign_keys :: "ForeignKey list"

text \<open>
  \<^verbatim>\<open>SchemaGraph(tables={...})\<close> takes a dictionary from qualified name to table. A Python
  dictionary keeps insertion order, so it is an association list here.
\<close>

record 'c SchemaGraph =
  tables :: "(string \<times> 'c Table) list"

text \<open>
  Modelled from the spec: \<^verbatim>\<open>SchemaGraph.__iter__\<close> (the loop \<^verbatim>\<open>for table in graph\<close>),
  whose code is in \<^verbatim>\<open>flaqes/core/schema_graph.py\<close>. The spec: the tables, in insertion
  order.
\<close>

definition iter_graph :: "'c SchemaGraph \<Rightarrow> 'c Table list" where
  "iter_graph graph = map snd (tables graph)"

section \<open>Python string operations used by the generator\<close>

text \<open>\<^verbatim>\<open>s.replace(old, new)\<close> for a one-character \<^verbatim>\<open>old\<close>: every occurrence is replaced.\<close>

fun replace :: "string \<Rightarrow> char \<Rightarrow> string \<Rightarrow> string" where
  "replace [] old new = []"
| "replace (c # s) old new = (if c = old then new @ replace s old new else c # replace s old new)"

text \<open>\<^verbatim>\<open>sep.join(xs)\<close>.\<close>

fun join :: "string \<Rightarrow> string list \<Rightarrow> string" where
  "join sep [] = []"
| "join sep [x] = x"
| "join sep (x # y # ys) = x @ sep @ join sep (y # ys)"

text \<open>
  \<^verbatim>\<open>s.split(sep)\<close> for a one-character \<^verbatim>\<open>sep\<close>: the pieces of \<^verbatim>\<open>s\<close> between the
  occurrences of \<^verbatim>\<open>sep\<close>, so the lines of a text when \<^verbatim>\<open>sep\<close> is the newline. The
  generator does not call it; the statements below use it to read the returned string line
  by line.
\<close>

fun split_on :: "char \<Rightarrow> string \<Rightarrow> string list" where
  "split_on sep [] = [[]]"
| "split_on sep (c # s) =
     (if c = sep then [] # split_on sep s
      else (case split_on sep s of
              [] \<Rightarrow> [[c]]
            | x # xs \<Rightarrow> (c # x) # xs))"

section \<open>generate_mermaid_erd\<close>

text \<open>The local variables of the column loop (lines 24 to 40), as functions of the loop variables.\<close>

definition col_type :: "'c Column \<Rightarrow> string" where
  "col_type column =
     replace (replace (replace (replace (replace (raw (data_type column))
       CHR '' '' ''_'') CHR ''('' '''') CHR '')'' '''') CHR ''['' '''') CHR '']'' ''''"

definition col_name :: "'c Column \<Rightarrow> string" where
  "col_name column = replace (Column.name column) CHR '' '' ''_''"

definition constraints :: "'c Table \<Rightarrow> 'c Column \<Rightarrow> string list" where
  "constraints table column =
     (let cs = [];
          cs = (if (case primary_key table of
                      None \<Rightarrow> False
                    | Some pk \<Rightarrow> Column.name column \<in> set (PrimaryKey.columns pk))
                then cs @ [''PK''] else cs);
          cs = (if list_ex (\<lambda>fk. Column.name column \<in> set (ForeignKey.columns fk))
                     (foreign_keys table)
                then cs @ [''FK''] else cs)
      in cs)"

definition constraint_str :: "'c Table \<Rightarrow> 'c Column \<Rightarrow> string" where
  "constraint_str table column =
     (if constraints table column \<noteq> [] then '' '' @ join '','' (constraints table column)
      else '''')"

definition column_line :: "'c Table \<Rightarrow> 'c Column \<Rightarrow> string" where
  "column_line table column =
     ''        '' @ col_type column @ '' '' @ col_name column @ constraint_str table column"

text \<open>The inner loop over \<^verbatim>\<open>table.columns\<close>; the list \<^verbatim>\<open>lines\<close> is the state.\<close>

fun column_loop :: "'c Table \<Rightarrow> 'c Column list \<Rightarrow> string list \<Rightarrow> string list" where
  "column_loop table [] lines = lines"
| "column_loop table (column # rest) lines =
     column_loop table rest (lines @ [column_line table column])"

text \<open>The first loop over the graph (lines 19 to 43).\<close>

fun table_loop :: "'c Table list \<Rightarrow> string list \<Rightarrow> string list" where
  "table_loop [] lines = lines"
| "table_loop (table # rest) lines =
     (let lines = lines @ [''    '' @ Table.name table @ '' {''];
          lines = column_loop table (Table.columns table) lines;
          lines = lines @ [''    }''];
          lines = lines @ ['''']
      in table_loop rest lines)"

text \<open>The local variables of the relationship loop (lines 47 to 63).\<close>

definition is_nullable :: "'c Table \<Rightarrow> ForeignKey \<Rightarrow> bool" where
  "is_nullable table fk =
     list_ex nullable
       (filter (\<lambda>col. Column.name col \<in> set (ForeignKey.columns fk)) (Table.columns table))"

definition relationship :: "'c Table \<Rightarrow> ForeignKey \<Rightarrow> string" where
  "relationship table fk = (if is_nullable table fk then ''||--o{'' else ''||--|{'')"

definition label :: "ForeignKey \<Rightarrow> string" where
  "label fk = join '', '' (ForeignKey.columns fk)"

definition relationship_line :: "'c Table \<Rightarrow> ForeignKey \<Rightarrow> string" where
  "relationship_line table fk =
     ''    '' @ target_table fk @ '' '' @ relationship table fk @ '' '' @ Table.name table
       @ '' : '' @ [CHR 0x22] @ label fk @ [CHR 0x22]"

fun fk_loop :: "'c Table \<Rightarrow> ForeignKey list \<Rightarrow> string list \<Rightarrow> string list" where
  "fk_loop table [] lines = lines"
| "fk_loop table (fk # rest) lines = fk_loop table rest (lines @ [relationship_line table fk])"

fun relationship_loop :: "'c Table list \<Rightarrow> string list \<Rightarrow> string list" where
  "relationship_loop [] lines = lines"
| "relationship_loop (table # rest) lines =
     relationship_loop rest (fk_loop table (foreign_keys table) lines)"

text \<open>The list \<^verbatim>\<open>lines\<close> when the function returns, and the string it returns.\<close>

definition erd_lines :: "'c SchemaGraph \<Rightarrow> string list" where
  "erd_lines graph =
     (let lines = [''erDiagram''];
          lines = lines @ [''''];
          lines = table_loop (iter_graph graph) lines;
          lines = relationship_loop (iter_graph graph) lines
      in lines)"

definition generate_mermaid_erd :: "'c SchemaGraph \<Rightarrow> string" where
  "generate_mermaid_erd graph = join [CHR 0x0A] (erd_lines graph)"

section \<open>Schema Graph construction\<close>

text \<open>
  Modelled from the spec: the error raised by Schema Graph construction
  (\<^verbatim>\<open>flaqes/core/schema_graph.py\<close> is not among the source files). The spec:
  ``GraphConstructionError (fatal): duplicate qualified table name during graph construction.''
\<close>

datatype error = GraphConstructionError

text \<open>
  Modelled from the spec: the identity of a table (its code is in
  \<^verbatim>\<open>flaqes/core/schema_graph.py\<close>). The spec: ``qualified name (schema + name)'', written
  \<^verbatim>\<open>"public.users"\<close> in its examples and in the keys of the test graphs.
\<close>

definition qualified_name :: "'c Table \<Rightarrow> string" where
  "qualified_name table = schema table @ ''.'' @ Table.name table"

text \<open>
  Modelled from the spec: the loop of Schema Graph construction (its code is in
  \<^verbatim>\<open>flaqes/core/schema_graph.py\<close>). The spec: a ``mapping from qualified table name to
  Table'', in ``the insertion order presented by introspection''; construction ``fails with a
  GraphConstructionError when two input tables share a qualified name'' and then ``no partial
  graph is returned''. The accumulator is the mapping built so far.
\<close>

fun build_loop :: "'c Table list \<Rightarrow> (string \<times> 'c Table) list \<Rightarrow> error + 'c SchemaGraph" where
  "build_loop [] acc = Inr \<lparr>SchemaGraph.tables = acc\<rparr>"
| "build_loop (table # rest) acc =
     (if map_of acc (qualified_name table) \<noteq> None then Inl GraphConstructionError
      else build_loop rest (acc @ [(qualified_name table, table)]))"

text \<open>
  Modelled from the spec: Schema Graph construction from the input tables (its code is in
  \<^verbatim>\<open>flaqes/core/schema_graph.py\<close>), the loop above started on the empty mapping.
\<close>

definition build_graph :: "'c Table list \<Rightarrow> error + 'c SchemaGraph" where
  "build_graph input = build_loop input []"

section \<open>Tension ranking\<close>

text \<open>
  Modelled from the spec: the severity of a tension (declared in \<^verbatim>\<open>flakes/core/types.py\<close>,
  which is not among the source files). The spec: ``severity (ordered: info < low < medium <
  high < critical)''.
\<close>

datatype Severity = INFO | LOW | MEDIUM | HIGH | CRITICAL

text \<open>
  Modelled from the spec: the effort of an alternative (declared in
  \<^verbatim>\<open>flakes/analysis/tension_analyzer.py\<close>, which is not among the source files). The spec:
  ``effort (ordered: trivial < small < medium < large)''.
\<close>

datatype Effort = TRIVIAL | SMALL | MEDIUM | LARGE

text \<open>
  Modelled from the spec: an alternative of a tension (\<^verbatim>\<open>tension_analyzer.py\<close>). The spec:
  ``Alternative: description, effort''.
\<close>

record Alternative =
  description :: string
  effort :: Effort

text \<open>
  Modelled from the spec: a design tension (\<^verbatim>\<open>tension_analyzer.py\<close>). The spec:
  ``DesignTension: category, severity, free-text description, involved tables, one or more
  Alternatives, contributing TensionSignals''. ``One or more'' is the first alternative and
  the list of the others. The tension categories and the tension signals are declared in
  files that are not among the sources; they are the type parameters \<open>'k\<close> and \<open>'s\<close>.
\<close>

record ('k, 's) DesignTension =
  category :: 'k
  severity :: Severity
  description :: string
  tables :: "string list"
  alternatives :: "Alternative \<times> Alternative list"
  signals :: "'s list"

text \<open>Modelled from the spec: the position of a severity in ``info < low < medium < high < critical''.\<close>

fun severity_order :: "Severity \<Rightarrow> nat" where
  "severity_order INFO = 0"
| "severity_order LOW = 1"
| "severity_order Severity.MEDIUM = 2"
| "severity_order HIGH = 3"
| "severity_order CRITICAL = 4"

text \<open>Modelled from the spec: the position of an effort in ``trivial < small < medium < large''.\<close>

fun effort_order :: "Effort \<Rightarrow> nat" where
  "effort_order TRIVIAL = 0"
| "effort_order SMALL = 1"
| "effort_order Effort.MEDIUM = 2"
| "effort_order LARGE = 3"

text \<open>
  Modelled from the spec: the ``minimum alternative effort'' of a tension
  (\<^verbatim>\<open>tension_analyzer.py\<close>), a running minimum over its alternatives.
\<close>

definition min_effort :: "('k, 's) DesignTension \<Rightarrow> nat" where
  "min_effort t =
     (case alternatives t of (a, others) \<Rightarrow>
        fold (\<lambda>b m. min (effort_order (effort b)) m) others (effort_order (effort a)))"

text \<open>
  Modelled from the spec: the sort key of the ranking (\<^verbatim>\<open>tension_analyzer.py\<close>). The spec:
  ``sorted by severity descending, then by minimum alternative effort ascending''. The
  severity is negated so that one ascending sort serves both components; pairs are compared
  lexicographically, as Python compares tuples.
\<close>

definition ranking_key :: "('k, 's) DesignTension \<Rightarrow> int \<times> nat" where
  "ranking_key t = (- int (severity_order (severity t)), min_effort t)"

text \<open>
  Modelled from the spec: the ranking of the Tension Analyzer (\<^verbatim>\<open>tension_analyzer.py\<close>).
  The spec: a ``stable sort'' of the tensions in detection order. \<^const>\<open>sort_key\<close> is
  insertion sort: each tension is inserted before the first one with a key that is not
  smaller.
\<close>

definition rank_tensions :: "('k, 's) DesignTension list \<Rightarrow> ('k, 's) DesignTension list" where
  "rank_tensions detected = sort_key ranking_key detected"

section \<open>Pattern confidence and reporting\<close>

text \<open>
  Modelled from the spec: a signal of a pattern detector (declared in
  \<^verbatim>\<open>flakes/analysis/pattern_matcher.py\<close>, which is not among the source files). The spec:
  ``Signal: a named, weighted piece of evidence''. Weights are real numbers here; clipping and
  comparing, the only operations the confidence bounds rest on, are exact on floats too.
\<close>

record PatternSignal =
  name :: string
  weight :: real

text \<open>
  Modelled from the spec: a reported pattern (\<^verbatim>\<open>pattern_matcher.py\<close>). The spec:
  ``DetectedPattern: pattern type, category, involved table(s), confidence in [0,1],
  contributing PatternSignals''. The enumerations of pattern types and categories are
  the type parameters \<open>'p\<close> and \<open>'g\<close>.
\<close>

record ('p, 'g) DetectedPattern =
  pattern_type :: 'p
  category :: 'g
  tables :: "string list"
  confidence :: real
  signals :: "PatternSignal list"

text \<open>
  Modelled from the spec: what one detector found for one candidate before the confidence
  is computed (\<^verbatim>\<open>pattern_matcher.py\<close>): the pattern, the tables and the ``fired signals''.
  The rules that fire the signals are not described by the spec beyond examples, so the
  evidence is the input of the model.
\<close>

record ('p, 'g) Evidence =
  pattern_type :: 'p
  category :: 'g
  tables :: "string list"
  fired :: "PatternSignal list"

text \<open>
  Modelled from the spec: the entry configuration of the pattern stage. The spec:
  ``enabled_patterns: set of PatternType, confidence_thresholds: mapping PatternType\<rightarrow>float''.
\<close>

record 'p Config =
  enabled_patterns :: "'p list"
  confidence_thresholds :: "'p \<Rightarrow> real option"

text \<open>Modelled from the spec: ``clipped to [0,1]'' (\<^verbatim>\<open>pattern_matcher.py\<close>).\<close>

definition clip :: "real \<Rightarrow> real" where
  "clip x = max 0 (min 1 x)"

text \<open>Modelled from the spec: the ``weighted sum of fired signals'' (\<^verbatim>\<open>pattern_matcher.py\<close>).\<close>

definition weighted_sum :: "PatternSignal list \<Rightarrow> real" where
  "weighted_sum fired_signals = sum_list (map weight fired_signals)"

text \<open>
  Modelled from the spec: the confidence of a pattern (\<^verbatim>\<open>pattern_matcher.py\<close>). The spec:
  ``Confidence = normalized weighted sum of fired signals for that pattern, clipped to
  [0,1]''. The spec does not say what the sum is normalized by, so the normalization of each
  pattern is the parameter \<open>normalized\<close>.
\<close>

definition pattern_confidence :: "('p \<Rightarrow> real \<Rightarrow> real) \<Rightarrow> ('p, 'g) Evidence \<Rightarrow> real" where
  "pattern_confidence normalized ev =
     clip (normalized (Evidence.pattern_type ev) (weighted_sum (fired ev)))"

text \<open>
  Modelled from the spec: the threshold of a pattern (\<^verbatim>\<open>pattern_matcher.py\<close>). The spec:
  ``a pattern-specific threshold (default 0.5 ...)''.
\<close>

definition threshold :: "'p Config \<Rightarrow> 'p \<Rightarrow> real" where
  "threshold config p = (case confidence_thresholds config p of None \<Rightarrow> 0.5 | Some t \<Rightarrow> t)"

text \<open>
  Modelled from the spec: reporting one candidate (\<^verbatim>\<open>pattern_matcher.py\<close>). The spec:
  ``a pattern is only reported when confidence exceeds a pattern-specific threshold'', and
  only the enabled patterns run.
\<close>

definition report_pattern ::
  "'p Config \<Rightarrow> ('p \<Rightarrow> real \<Rightarrow> real) \<Rightarrow> ('p, 'g) Evidence \<Rightarrow> ('p, 'g) DetectedPattern list" where
  "report_pattern config normalized ev =
     (if Evidence.pattern_type ev \<in> set (enabled_patterns config)
         \<and> threshold config (Evidence.pattern_type ev) < pattern_confidence normalized ev
      then [\<lparr>DetectedPattern.pattern_type = Evidence.pattern_type ev,
             category = Evidence.category ev,
             tables = Evidence.tables ev,
             confidence = pattern_confidence normalized ev,
             signals = fired ev\<rparr>]
      else [])"

text \<open>
  Modelled from the spec: the output of the Pattern Detector (\<^verbatim>\<open>pattern_matcher.py\<close>), the
  reported patterns of all candidates in order.
\<close>

definition detect_patterns ::
  "'p Config \<Rightarrow> ('p \<Rightarrow> real \<Rightarrow> real) \<Rightarrow> ('p, 'g) Evidence list
     \<Rightarrow> ('p, 'g) DetectedPattern list" where
  "detect_patterns config normalized evidence =
     concat (map (report_pattern config normalized) evidence)"

section \<open>Example inputs\<close>

text \<open>The parent table of \<^verbatim>\<open>test_generate_mermaid_erd_nullable_fk\<close> (\<^verbatim>\<open>tests/report/test_mermaid.py\<close>); the category of a data type is written as its name.\<close>

definition categories_table :: "string Table" where
  "categories_table =
     \<lparr>Table.name = ''categories'', schema = ''public'',
      columns = [\<lparr>Column.name = ''id'',
                  data_type = \<lparr>raw = ''integer'', category = ''INTEGER''\<rparr>, nullable = False\<rparr>],
      primary_key = Some \<lparr>PrimaryKey.name = ''categories_pkey'', columns = [''id'']\<rparr>,
      foreign_keys = []\<rparr>"

text \<open>The foreign key of the child table of the same test.\<close>

definition products_category_id_fkey :: ForeignKey where
  "products_category_id_fkey =
     \<lparr>ForeignKey.name = ''products_category_id_fkey'', columns = [''category_id''],
      target_table = ''categories'', target_schema = ''public'', target_columns = [''id'']\<rparr>"

text \<open>The child table of the same test, with the nullable foreign key column.\<close>

definition products_table :: "string Table" where
  "products_table =
     \<lparr>Table.name = ''products'', schema = ''public'',
      columns = [\<lparr>Column.name = ''id'',
                  data_type = \<lparr>raw = ''integer'', category = ''INTEGER''\<rparr>, nullable = False\<rparr>,
                 \<lparr>Column.name = ''category_id'',
                  data_type = \<lparr>raw = ''integer'', category = ''INTEGER''\<rparr>, nullable = True\<rparr>],
      primary_key = Some \<lparr>PrimaryKey.name = ''products_pkey'', columns = [''id'']\<rparr>,
      foreign_keys = [products_category_id_fkey]\<rparr>"

text \<open>The graph of the same test.\<close>

definition nullable_fk_graph :: "string SchemaGraph" where
  "nullable_fk_graph =
     \<lparr>SchemaGraph.tables =
        [(''public.categories'', categories_table), (''public.products'', products_table)]\<rparr>"

text \<open>A foreign key to a table that the example graphs do not contain.\<close>

definition memberships_owner_id_fkey :: ForeignKey where
  "memberships_owner_id_fkey =
     \<lparr>ForeignKey.name = ''memberships_owner_id_fkey'', columns = [''owner_id''],
      target_table = ''users'', target_schema = ''public'', target_columns = [''id'']\<rparr>"

text \<open>
  A table with a column in the primary key only, one in the primary key and in a foreign
  key, one in a foreign key only and one in neither.
\<close>

definition memberships_table :: "string Table" where
  "memberships_table =
     \<lparr>Table.name = ''memberships'', schema = ''public'',
      columns = [\<lparr>Column.name = ''id'',
                  data_type = \<lparr>raw = ''integer'', category = ''INTEGER''\<rparr>, nullable = False\<rparr>,
                 \<lparr>Column.name = ''category_id'',
                  data_type = \<lparr>raw = ''integer'', category = ''INTEGER''\<rparr>, nullable = False\<rparr>,
                 \<lparr>Column.name = ''owner_id'',
                  data_type = \<lparr>raw = ''integer'', category = ''INTEGER''\<rparr>, nullable = True\<rparr>,
                 \<lparr>Column.name = ''note'',
                  data_type = \<lparr>raw = ''text'', category = ''TEXT''\<rparr>, nullable = True\<rparr>],
      primary_key = Some \<lparr>PrimaryKey.name = ''memberships_pkey'',
                          columns = [''id'', ''category_id'']\<rparr>,
      foreign_keys = [products_category_id_fkey, memberships_owner_id_fkey]\<rparr>"

text \<open>A table whose column has spaces, parentheses and square brackets in its name and type.\<close>

definition people_table :: "string Table" where
  "people_table =
     \<lparr>Table.name = ''people'', schema = ''public'',
      columns = [\<lparr>Column.name = ''first name'',
                  data_type = \<lparr>raw = ''character varying(20)[]'', category = ''TEXT''\<rparr>,
                  nullable = False\<rparr>],
      primary_key = None, foreign_keys = []\<rparr>"

text \<open>The tensions of the ordering example of the spec: severity high with one alternative of large effort.\<close>

definition high_large :: "(unit, unit) DesignTension" where
  "high_large =
     \<lparr>DesignTension.category = (), severity = HIGH, description = ''first'', tables = [],
      alternatives = (\<lparr>Alternative.description = ''rewrite'', effort = LARGE\<rparr>, []),
      signals = []\<rparr>"

text \<open>Severity medium, with alternatives of large and small effort: the minimum effort is small.\<close>

definition medium_small :: "(unit, unit) DesignTension" where
  "medium_small =
     \<lparr>DesignTension.category = (), severity = Severity.MEDIUM, description = ''second'',
      tables = [],
      alternatives = (\<lparr>Alternative.description = ''rewrite'', effort = LARGE\<rparr>,
                      [\<lparr>Alternative.description = ''add an index'', effort = SMALL\<rparr>]),
      signals = []\<rparr>"

text \<open>A tension with the keys of the previous one, detected later.\<close>

definition medium_small_later :: "(unit, unit) DesignTension" where
  "medium_small_later = medium_small\<lparr>DesignTension.description := ''third''\<rparr>"

text \<open>Evidence with two fired signals, of weights 0.6 and 0.3.\<close>

definition soft_delete_evidence :: "(string, unit) Evidence" where
  "soft_delete_evidence =
     \<lparr>Evidence.pattern_type = ''soft_delete'', category = (), tables = [''public.users''],
      fired = [\<lparr>PatternSignal.name = ''deletion marker column'', weight = 6 / 10\<rparr>,
               \<lparr>PatternSignal.name = ''nullable'', weight = 3 / 10\<rparr>]\<rparr>"

text \<open>Evidence with one fired signal of weight 0.3.\<close>

definition weak_evidence :: "(string, unit) Evidence" where
  "weak_evidence =
     \<lparr>Evidence.pattern_type = ''junction'', category = (), tables = [''public.tags''],
      fired = [\<lparr>PatternSignal.name = ''composite key'', weight = 3 / 10\<rparr>]\<rparr>"

text \<open>A configuration with no threshold of its own: every pattern has the default threshold.\<close>

definition default_config :: "string Config" where
  "default_config =
     \<lparr>enabled_patterns = [''soft_delete'', ''junction''], confidence_thresholds = (\<lambda>p. None)\<rparr>"

section \<open>What the loops of generate_mermaid_erd append\<close>

lemma column_loop_eq: "column_loop t cs acc = acc @ map (column_line t) cs"
  by (induction cs arbitrary: acc) simp_all

lemma table_loop_eq:
  "table_loop ts acc =
     acc @ concat (map (\<lambda>t. (''    '' @ Table.name t @ '' {'') #
                             map (column_line t) (Table.columns t) @ [''    }'', '''']) ts)"
  by (induction ts arbitrary: acc) (simp_all add: column_loop_eq)

lemma fk_loop_eq: "fk_loop t fks acc = acc @ map (relationship_line t) fks"
  by (induction fks arbitrary: acc) simp_all

lemma relationship_loop_eq:
  "relationship_loop ts acc =
     acc @ concat (map (\<lambda>t. map (relationship_line t) (foreign_keys t)) ts)"
  by (induction ts arbitrary: acc) (simp_all add: fk_loop_eq)

lemma replace_char: "replace s old [new] = map (\<lambda>c. if c = old then new else c) s"
  by (induction s) simp_all

lemma replace_empty: "replace s old [] = filter (\<lambda>c. c \<noteq> old) s"
  by (induction s) simp_all

lemma join_first_line:
  "CHR 0x0A \<notin> set x \<Longrightarrow> takeWhile (\<lambda>c. c \<noteq> CHR 0x0A) (join [CHR 0x0A] (x # y # ys)) = x"
proof -
  assume a: "CHR 0x0A \<notin> set x"
  have "takeWhile (\<lambda>c. c \<noteq> CHR 0x0A) (x @ CHR 0x0A # join [CHR 0x0A] (y # ys)) =
        takeWhile (\<lambda>c. c \<noteq> CHR 0x0A) x"
    by (rule takeWhile_tail) simp
  also have "\<dots> = x"
    using a by (simp add: takeWhile_eq_all_conv) metis
  finally show ?thesis by simp
qed

lemma constraints_cases:
  "constraints t c =
     (if (\<exists>pk. primary_key t = Some pk \<and> Column.name c \<in> set (PrimaryKey.columns pk))
      then [''PK''] else []) @
     (if (\<exists>fk \<in> set (foreign_keys t). Column.name c \<in> set (ForeignKey.columns fk))
      then [''FK''] else [])"
  by (cases "primary_key t") (simp_all add: constraints_def list_ex_iff)

lemma is_nullable_iff:
  "is_nullable t fk \<longleftrightarrow>
     (\<exists>c \<in> set (Table.columns t). Column.name c \<in> set (ForeignKey.columns fk) \<and> nullable c)"
  by (auto simp: is_nullable_def list_ex_iff)

lemma split_on_no_sep: "sep \<notin> set x \<Longrightarrow> split_on sep x = [x]"
  by (induction x) auto

lemma split_on_append: "sep \<notin> set x \<Longrightarrow> split_on sep (x @ sep # rest) = x # split_on sep rest"
  by (induction x) auto

lemma split_on_join:
  "xs \<noteq> [] \<Longrightarrow> \<forall>x \<in> set xs. sep \<notin> set x \<Longrightarrow> split_on sep (join [sep] xs) = xs"
proof (induction "[sep]" xs rule: join.induct)
  case 1
  then show ?case by simp
next
  case (2 x)
  then show ?case by (simp add: split_on_no_sep)
next
  case (3 x y ys)
  then show ?case by (simp add: split_on_append)
qed

lemma generate_eq:
  "generate_mermaid_erd graph =
     join [CHR 0x0A]
       ([''erDiagram'', ''''] @
        concat (map (\<lambda>t. [''    '' @ Table.name t @ '' {''] @
                          map (column_line t) (Table.columns t) @ [''    }'', ''''])
                  (iter_graph graph)) @
        concat (map (\<lambda>t. map (relationship_line t) (foreign_keys t)) (iter_graph graph)))"
  by (simp add: generate_mermaid_erd_def erd_lines_def table_loop_eq relationship_loop_eq)

lemma constraint_str_cases:
  "constraint_str t c =
     (if (\<exists>pk. primary_key t = Some pk \<and> Column.name c \<in> set (PrimaryKey.columns pk))
      then (if (\<exists>fk \<in> set (foreign_keys t). Column.name c \<in> set (ForeignKey.columns fk))
            then '' PK,FK'' else '' PK'')
      else (if (\<exists>fk \<in> set (foreign_keys t). Column.name c \<in> set (ForeignKey.columns fk))
            then '' FK'' else ''''))"
  by (simp add: constraint_str_def constraints_cases)

lemma col_type_eq:
  "col_type c =
     filter (\<lambda>x. x \<noteq> CHR ''('' \<and> x \<noteq> CHR '')'' \<and> x \<noteq> CHR ''['' \<and> x \<noteq> CHR '']'')
       (map (\<lambda>x. if x = CHR '' '' then CHR ''_'' else x) (raw (data_type c)))"
  by (simp add: col_type_def replace_char replace_empty conj_commute conj_left_commute)

lemma col_name_eq:
  "col_name c = map (\<lambda>x. if x = CHR '' '' then CHR ''_'' else x) (Column.name c)"
  by (simp add: col_name_def replace_char)

lemma relationship_line_eq:
  "relationship_line t fk =
     ''    '' @ target_table fk @ '' '' @
     (if (\<exists>c \<in> set (Table.columns t).
             Column.name c \<in> set (ForeignKey.columns fk) \<and> nullable c)
      then ''||--o{'' else ''||--|{'') @
     '' '' @ Table.name t @ '' : '' @ [CHR 0x22] @ join '', '' (ForeignKey.columns fk)
     @ [CHR 0x22]"
  by (simp add: relationship_line_def relationship_def is_nullable_iff label_def)

lemma relationship_lines_map:
  "map (relationship_line t) fks =
     map (\<lambda>fk.
            ''    '' @ target_table fk @ '' '' @
            (if (\<exists>c \<in> set (Table.columns t).
                    Column.name c \<in> set (ForeignKey.columns fk) \<and> nullable c)
             then ''||--o{'' else ''||--|{'') @
            '' '' @ Table.name t @ '' : '' @ [CHR 0x22] @
            join '', '' (ForeignKey.columns fk) @ [CHR 0x22]) fks"
  by (rule map_cong [OF refl]) (rule relationship_line_eq)

lemma marker_lines_map:
  "map (column_line t) cs =
     map (\<lambda>c. ''        '' @ col_type c @ '' '' @ col_name c @
            (if (\<exists>pk. primary_key t = Some pk
                    \<and> Column.name c \<in> set (PrimaryKey.columns pk))
             then (if (\<exists>fk \<in> set (foreign_keys t).
                          Column.name c \<in> set (ForeignKey.columns fk))
                   then '' PK,FK'' else '' PK'')
             else (if (\<exists>fk \<in> set (foreign_keys t).
                          Column.name c \<in> set (ForeignKey.columns fk))
                   then '' FK'' else ''''))) cs"
  by (rule map_cong [OF refl]) (simp add: column_line_def constraint_str_cases)

lemma clean_lines_map:
  "map (column_line t) cs =
     map (\<lambda>c. ''        '' @
            filter (\<lambda>x. x \<noteq> CHR ''('' \<and> x \<noteq> CHR '')'' \<and> x \<noteq> CHR ''[''
                         \<and> x \<noteq> CHR '']'')
              (map (\<lambda>x. if x = CHR '' '' then CHR ''_'' else x) (raw (data_type c))) @
            '' '' @
            map (\<lambda>x. if x = CHR '' '' then CHR ''_'' else x) (Column.name c) @
            constraint_str t c) cs"
  by (rule map_cong [OF refl]) (simp add: column_line_def col_type_eq col_name_eq)

lemma text_of_lines:
  "generate_mermaid_erd graph = join [CHR 0x0A] entries \<Longrightarrow> entries \<noteq> [] \<Longrightarrow>
     (let ls = entries
      in generate_mermaid_erd graph = join [CHR 0x0A] ls
         \<and> ((\<forall>l \<in> set ls. CHR 0x0A \<notin> set l)
              \<longrightarrow> split_on (CHR 0x0A) (generate_mermaid_erd graph) = ls))"
  by (simp add: Let_def split_on_join)

lemma generate_first_line:
  "takeWhile (\<lambda>x. x \<noteq> CHR 0x0A) (generate_mermaid_erd graph) = ''erDiagram''"
  by (simp add: generate_eq join_first_line)

section \<open>The relationship lines of the diagram\<close>

text \<open>
  Claim C8. The string returned by generate_mermaid_erd is the newline-joined list of: the
  header \<^verbatim>\<open>erDiagram\<close> and an empty entry, the table blocks, and then, for each table of
  the graph in iteration order and each of its foreign keys in order, exactly one
  relationship entry. The entry of the foreign key \<open>fk\<close> of the table \<open>t\<close> is made of the
  target, the notation, the table and the label, and the notation is \<^verbatim>\<open>||--o{\<close> if some
  column of \<open>t\<close> whose name is among \<open>fk\<close>'s columns is nullable and \<^verbatim>\<open>||--|{\<close>
  otherwise. Names are not cleaned of newlines; when no entry contains one, the lines of the
  returned text are exactly these entries.
\<close>

theorem relationship_lines:
  "(let ls =
      [''erDiagram'', ''''] @
      concat (map (\<lambda>t. [''    '' @ Table.name t @ '' {''] @
                        map (column_line t) (Table.columns t) @ [''    }'', ''''])
                (iter_graph graph)) @
      concat (map (\<lambda>t. map (\<lambda>fk.
                ''    '' @ target_table fk @ '' '' @
                (if (\<exists>c \<in> set (Table.columns t).
                        Column.name c \<in> set (ForeignKey.columns fk) \<and> nullable c)
                 then ''||--o{'' else ''||--|{'') @
                '' '' @ Table.name t @ '' : '' @ [CHR 0x22] @
                join '', '' (ForeignKey.columns fk) @ [CHR 0x22])
                  (foreign_keys t))
                (iter_graph graph))
    in generate_mermaid_erd graph = join [CHR 0x0A] ls
       \<and> ((\<forall>l \<in> set ls. CHR 0x0A \<notin> set l)
            \<longrightarrow> split_on (CHR 0x0A) (generate_mermaid_erd graph) = ls))"
  by (rule text_of_lines) (simp_all add: generate_eq relationship_lines_map)

text \<open>
  The graph of the test with the nullable foreign key, whose text and lines are computed;
  and the same key on a column declared NOT NULL.
\<close>

theorem relationship_lines_witness:
  "generate_mermaid_erd nullable_fk_graph =
     join [CHR 0x0A]
       [''erDiagram'', '''',
        ''    categories {'', ''        integer id PK'', ''    }'', '''',
        ''    products {'', ''        integer id PK'', ''        integer category_id FK'',
        ''    }'', '''',
        ''    categories ||--o{ products : '' @ [CHR 0x22] @ ''category_id'' @ [CHR 0x22]]
   \<and> split_on (CHR 0x0A) (generate_mermaid_erd nullable_fk_graph) =
       [''erDiagram'', '''',
        ''    categories {'', ''        integer id PK'', ''    }'', '''',
        ''    products {'', ''        integer id PK'', ''        integer category_id FK'',
        ''    }'', '''',
        ''    categories ||--o{ products : '' @ [CHR 0x22] @ ''category_id'' @ [CHR 0x22]]
   \<and> generate_mermaid_erd
         \<lparr>SchemaGraph.tables =
            [(''public.products'',
              \<lparr>Table.name = ''products'', schema = ''public'',
               columns = [\<lparr>Column.name = ''category_id'',
                           data_type = \<lparr>raw = ''integer'', category = ''INTEGER''\<rparr>,
                           nullable = False\<rparr>],
               primary_key = None, foreign_keys = [products_category_id_fkey]\<rparr>)]\<rparr> =
     join [CHR 0x0A]
       [''erDiagram'', '''', ''    products {'', ''        integer category_id FK'', ''    }'', '''',
        ''    categories ||--|{ products : '' @ [CHR 0x22] @ ''category_id'' @ [CHR 0x22]]"
  using relationship_lines [of nullable_fk_graph]
        relationship_lines
          [of "\<lparr>SchemaGraph.tables =
            [(''public.products'',
              \<lparr>Table.name = ''products'', schema = ''public'',
               columns = [\<lparr>Column.name = ''category_id'',
                           data_type = \<lparr>raw = ''integer'', category = ''INTEGER''\<rparr>,
                           nullable = False\<rparr>],
               primary_key = None, foreign_keys = [products_category_id_fkey]\<rparr>)]\<rparr>"]
  by (simp add: Let_def nullable_fk_graph_def iter_graph_def products_table_def
      categories_table_def products_category_id_fkey_def column_line_def col_type_def
      col_name_def constraint_str_def constraints_def)

section \<open>The constraint markers of a column line\<close>

text \<open>
  Claim C9. In the string returned by generate_mermaid_erd, the block of each table \<open>t\<close> has
  one entry for each column \<open>c\<close> in order, made of the cleaned type, the cleaned name and the
  markers: \<^verbatim>\<open> PK,FK\<close> when \<open>t\<close> has a primary key whose column list contains \<open>c\<close>'s name
  and the column list of some foreign key of \<open>t\<close> contains it too, \<^verbatim>\<open> PK\<close> when only the
  first holds, \<^verbatim>\<open> FK\<close> when only the second holds, and nothing when neither does. The
  list of constraints built for the column contains \<^verbatim>\<open>PK\<close> exactly in the first case and
  \<^verbatim>\<open>FK\<close> exactly in the second. When no entry contains a newline, the lines of the
  returned text are exactly the entries.
\<close>

theorem column_markers:
  "(let ls =
      [''erDiagram'', ''''] @
      concat (map (\<lambda>t. [''    '' @ Table.name t @ '' {''] @
                        map (\<lambda>c. ''        '' @ col_type c @ '' '' @ col_name c @
                          (if (\<exists>pk. primary_key t = Some pk
                                  \<and> Column.name c \<in> set (PrimaryKey.columns pk))
                           then (if (\<exists>fk \<in> set (foreign_keys t).
                                        Column.name c \<in> set (ForeignKey.columns fk))
                                 then '' PK,FK'' else '' PK'')
                           else (if (\<exists>fk \<in> set (foreign_keys t).
                                        Column.name c \<in> set (ForeignKey.columns fk))
                                 then '' FK'' else '''')))
                          (Table.columns t) @ [''    }'', ''''])
                (iter_graph graph)) @
      concat (map (\<lambda>t. map (relationship_line t) (foreign_keys t)) (iter_graph graph))
    in generate_mermaid_erd graph = join [CHR 0x0A] ls
       \<and> ((\<forall>l \<in> set ls. CHR 0x0A \<notin> set l)
            \<longrightarrow> split_on (CHR 0x0A) (generate_mermaid_erd graph) = ls))
   \<and> (''PK'' \<in> set (constraints t c) \<longleftrightarrow>
      (\<exists>pk. primary_key t = Some pk \<and> Column.name c \<in> set (PrimaryKey.columns pk)))
   \<and> (''FK'' \<in> set (constraints t c) \<longleftrightarrow>
      (\<exists>fk \<in> set (foreign_keys t). Column.name c \<in> set (ForeignKey.columns fk)))"
proof (intro conjI)
  show "''PK'' \<in> set (constraints t c) \<longleftrightarrow>
      (\<exists>pk. primary_key t = Some pk \<and> Column.name c \<in> set (PrimaryKey.columns pk))"
    by (simp add: constraints_cases)
  show "''FK'' \<in> set (constraints t c) \<longleftrightarrow>
      (\<exists>fk \<in> set (foreign_keys t). Column.name c \<in> set (ForeignKey.columns fk))"
    by (simp add: constraints_cases)
qed (rule text_of_lines, simp_all add: generate_eq marker_lines_map)

text \<open>A table with the four kinds of columns: the returned text, its lines, and the constraints of the column with both markers.\<close>

theorem column_markers_witness:
  "generate_mermaid_erd \<lparr>SchemaGraph.tables = [(''public.memberships'', memberships_table)]\<rparr> =
     join [CHR 0x0A]
       [''erDiagram'', '''',
        ''    memberships {'',
        ''        integer id PK'',
        ''        integer category_id PK,FK'',
        ''        integer owner_id FK'',
        ''        text note'',
        ''    }'', '''',
        ''    categories ||--|{ memberships : '' @ [CHR 0x22] @ ''category_id'' @ [CHR 0x22],
        ''    users ||--o{ memberships : '' @ [CHR 0x22] @ ''owner_id'' @ [CHR 0x22]]
   \<and> split_on (CHR 0x0A)
        (generate_mermaid_erd
           \<lparr>SchemaGraph.tables = [(''public.memberships'', memberships_table)]\<rparr>) =
       [''erDiagram'', '''',
        ''    memberships {'',
        ''        integer id PK'',
        ''        integer category_id PK,FK'',
        ''        integer owner_id FK'',
        ''        text note'',
        ''    }'', '''',
        ''    categories ||--|{ memberships : '' @ [CHR 0x22] @ ''category_id'' @ [CHR 0x22],
        ''    users ||--o{ memberships : '' @ [CHR 0x22] @ ''owner_id'' @ [CHR 0x22]]
   \<and> constraints memberships_table
         \<lparr>Column.name = ''category_id'',
          data_type = \<lparr>raw = ''integer'', category = ''INTEGER''\<rparr>, nullable = False\<rparr>
       = [''PK'', ''FK'']"
  using column_markers
          [of "\<lparr>SchemaGraph.tables = [(''public.memberships'', memberships_table)]\<rparr>"
              memberships_table
              "\<lparr>Column.name = ''category_id'',
                data_type = \<lparr>raw = ''integer'', category = ''INTEGER''\<rparr>, nullable = False\<rparr>"]
  by (simp add: Let_def iter_graph_def memberships_table_def products_category_id_fkey_def
      memberships_owner_id_fkey_def col_type_def col_name_def relationship_line_def
      relationship_def is_nullable_def label_def constraints_def)

section \<open>The layout of the diagram\<close>

text \<open>
  Claim C10. For every graph, the empty one included, the string returned by
  generate_mermaid_erd starts with the line \<^verbatim>\<open>erDiagram\<close>. It is the newline-joined list
  of \<^verbatim>\<open>erDiagram\<close>, an empty entry, then for each table in iteration order its block (the
  header with the table's name and an opening brace, one entry for each column, the closing
  brace, an empty entry), then the relationship entries. In a column entry the type is the
  raw type with every space turned into an underscore and every parenthesis and square
  bracket dropped, and the name is the column's name with every space turned into an
  underscore: no space is left in the name, and no space, parenthesis or square bracket in
  the type. When no entry contains a newline, the lines of the returned text are exactly
  the entries.
\<close>

theorem erd_layout:
  "(let ls =
      [''erDiagram'', ''''] @
      concat (map (\<lambda>t. [''    '' @ Table.name t @ '' {''] @
                        map (\<lambda>c. ''        '' @
                          filter (\<lambda>x. x \<noteq> CHR ''('' \<and> x \<noteq> CHR '')'' \<and> x \<noteq> CHR ''[''
                                       \<and> x \<noteq> CHR '']'')
                            (map (\<lambda>x. if x = CHR '' '' then CHR ''_'' else x)
                               (raw (data_type c))) @
                          '' '' @
                          map (\<lambda>x. if x = CHR '' '' then CHR ''_'' else x) (Column.name c) @
                          constraint_str t c)
                          (Table.columns t) @ [''    }'', ''''])
                (iter_graph graph)) @
      concat (map (\<lambda>t. map (relationship_line t) (foreign_keys t)) (iter_graph graph))
    in generate_mermaid_erd graph = join [CHR 0x0A] ls
       \<and> ((\<forall>l \<in> set ls. CHR 0x0A \<notin> set l)
            \<longrightarrow> split_on (CHR 0x0A) (generate_mermaid_erd graph) = ls))
   \<and> takeWhile (\<lambda>x. x \<noteq> CHR 0x0A) (generate_mermaid_erd graph) = ''erDiagram''
   \<and> CHR '' '' \<notin> set (map (\<lambda>x. if x = CHR '' '' then CHR ''_'' else x) column_name)
   \<and> set (filter (\<lambda>x. x \<noteq> CHR ''('' \<and> x \<noteq> CHR '')'' \<and> x \<noteq> CHR ''['' \<and> x \<noteq> CHR '']'')
            (map (\<lambda>x. if x = CHR '' '' then CHR ''_'' else x) raw_type))
       \<inter> {CHR '' '', CHR ''('', CHR '')'', CHR ''['', CHR '']''} = {}"
proof (intro conjI)
  show "takeWhile (\<lambda>x. x \<noteq> CHR 0x0A) (generate_mermaid_erd graph) = ''erDiagram''"
    by (rule generate_first_line)
  show "CHR '' '' \<notin> set (map (\<lambda>x. if x = CHR '' '' then CHR ''_'' else x) column_name)"
    by auto
  show "set (filter (\<lambda>x. x \<noteq> CHR ''('' \<and> x \<noteq> CHR '')'' \<and> x \<noteq> CHR ''['' \<and> x \<noteq> CHR '']'')
            (map (\<lambda>x. if x = CHR '' '' then CHR ''_'' else x) raw_type))
       \<inter> {CHR '' '', CHR ''('', CHR '')'', CHR ''['', CHR '']''} = {}"
    by auto
qed (rule text_of_lines, simp_all add: generate_eq clean_lines_map)

text \<open>The text of the empty graph, and the text and lines of a graph of two tables, one with a column whose name and type need cleaning.\<close>

theorem erd_layout_witness:
  "generate_mermaid_erd \<lparr>SchemaGraph.tables = ([] :: (string \<times> string Table) list)\<rparr>
     = ''erDiagram'' @ [CHR 0x0A]
   \<and> split_on (CHR 0x0A)
        (generate_mermaid_erd \<lparr>SchemaGraph.tables = ([] :: (string \<times> string Table) list)\<rparr>)
     = [''erDiagram'', '''']
   \<and> generate_mermaid_erd
         \<lparr>SchemaGraph.tables =
            [(''public.people'', people_table), (''public.categories'', categories_table)]\<rparr> =
     join [CHR 0x0A]
       [''erDiagram'', '''',
        ''    people {'', ''        character_varying20 first_name'', ''    }'', '''',
        ''    categories {'', ''        integer id PK'', ''    }'', '''']
   \<and> split_on (CHR 0x0A)
        (generate_mermaid_erd
           \<lparr>SchemaGraph.tables =
              [(''public.people'', people_table), (''public.categories'', categories_table)]\<rparr>) =
       [''erDiagram'', '''',
        ''    people {'', ''        character_varying20 first_name'', ''    }'', '''',
        ''    categories {'', ''        integer id PK'', ''    }'', '''']"
  using erd_layout
          [of "\<lparr>SchemaGraph.tables = ([] :: (string \<times> string Table) list)\<rparr>"]
        erd_layout
          [of "\<lparr>SchemaGraph.tables =
            [(''public.people'', people_table), (''public.categories'', categories_table)]\<rparr>"]
  by (simp add: Let_def iter_graph_def people_table_def categories_table_def
      constraint_str_def constraints_def)

section \<open>Duplicate qualified names\<close>

lemma build_loop_eq:
  "build_loop ts acc =
     (if distinct (map qualified_name ts) \<and> set (map qualified_name ts) \<inter> fst ` set acc = {}
      then Inr \<lparr>SchemaGraph.tables = acc @ map (\<lambda>t. (qualified_name t, t)) ts\<rparr>
      else Inl GraphConstructionError)"
proof (induction ts arbitrary: acc)
  case Nil
  show ?case by simp
next
  case (Cons t ts)
  show ?case
  proof (cases "map_of acc (qualified_name t) = None")
    case True
    then have "qualified_name t \<notin> fst ` set acc"
      by (simp add: map_of_eq_None_iff)
    then show ?thesis
      using True by (auto simp: Cons.IH image_Un)
  next
    case False
    then have "qualified_name t \<in> fst ` set acc"
      by (simp add: map_of_eq_None_iff)
    then show ?thesis
      using False by auto
  qed
qed

text \<open>
  Claim C2. Construction from a collection in which two tables share a qualified name fails
  with GraphConstructionError, and the result then carries no graph; construction from a
  collection whose qualified names are all distinct succeeds, with the graph that maps each
  qualified name to its table, in input order.
\<close>

theorem build_graph_duplicates:
  "build_graph ts =
     (if distinct (map qualified_name ts)
      then Inr \<lparr>SchemaGraph.tables = map (\<lambda>t. (qualified_name t, t)) ts\<rparr>
      else Inl GraphConstructionError)"
  by (simp add: build_graph_def build_loop_eq)

text \<open>The tables of the test: a third table with the qualified name of the first makes construction fail; the two tables alone give the graph of the test.\<close>

theorem build_graph_duplicates_witness:
  "build_graph [categories_table, products_table, categories_table\<lparr>Table.columns := []\<rparr>]
     = Inl GraphConstructionError
   \<and> build_graph [categories_table, products_table] = Inr nullable_fk_graph"
  using build_graph_duplicates
          [of "[categories_table, products_table, categories_table\<lparr>Table.columns := []\<rparr>]"]
        build_graph_duplicates [of "[categories_table, products_table]"]
  by (simp add: qualified_name_def categories_table_def products_table_def
      nullable_fk_graph_def)

section \<open>The ranking of tensions\<close>

lemma fold_min_eq: "fold (\<lambda>b m. min (f b) m) xs (a::nat) = Min (insert a (f ` set xs))"
proof (induction xs arbitrary: a)
  case Nil
  show ?case by simp
next
  case (Cons x xs)
  have "Min (insert (min (f x) a) (f ` set xs)) = Min (insert a (insert (f x) (f ` set xs)))"
    by (cases "xs = []") (simp_all add: min.commute min.left_commute min.assoc)
  then show ?case by (simp add: Cons.IH)
qed

lemma severity_order_inj: "severity_order a = severity_order b \<longleftrightarrow> a = b"
  by (cases a; cases b) simp_all

lemma ranking_key_le:
  "ranking_key a \<le> ranking_key b \<longleftrightarrow>
     severity_order (severity b) < severity_order (severity a)
     \<or> (severity_order (severity a) = severity_order (severity b) \<and> min_effort a \<le> min_effort b)"
  by (auto simp: ranking_key_def less_eq_prod_def)

lemma ranking_key_eq:
  "ranking_key t = (- int (severity_order s), e) \<longleftrightarrow> severity t = s \<and> min_effort t = e"
  by (simp add: ranking_key_def severity_order_inj)

text \<open>
  Claim C3. The ranked sequence is ordered by severity descending and, among equal
  severities, by minimum alternative effort ascending (the orders being
  info < low < medium < high < critical and trivial < small < medium < large, and the minimum
  effort of a tension being the least effort among its alternatives); it is a rearrangement
  of the detected sequence; and for every severity and effort, the tensions with these two
  keys stand in the ranked sequence as they stood in the detected one, so ties keep the
  detection order.
\<close>

theorem rank_tensions_sorted_stable:
  "sorted_wrt (\<lambda>a b. severity_order (severity b) < severity_order (severity a)
                 \<or> (severity_order (severity a) = severity_order (severity b)
                     \<and> min_effort a \<le> min_effort b))
     (rank_tensions ts)
   \<and> mset (rank_tensions ts) = mset ts
   \<and> filter (\<lambda>t. severity t = s \<and> min_effort t = e) (rank_tensions ts)
       = filter (\<lambda>t. severity t = s \<and> min_effort t = e) ts
   \<and> min_effort t =
       Min (insert (effort_order (effort (fst (alternatives t))))
              ((\<lambda>a. effort_order (effort a)) ` set (snd (alternatives t))))"
proof -
  have "sorted (map ranking_key (rank_tensions ts))"
    by (simp add: rank_tensions_def)
  then have srt: "sorted_wrt (\<lambda>a b. severity_order (severity b) < severity_order (severity a)
                 \<or> (severity_order (severity a) = severity_order (severity b)
                     \<and> min_effort a \<le> min_effort b)) (rank_tensions ts)"
    by (simp add: sorted_map ranking_key_le)
  have perm: "mset (rank_tensions ts) = mset ts"
    by (simp add: rank_tensions_def)
  have "filter (\<lambda>t. ranking_key t = (- int (severity_order s), e)) (rank_tensions ts)
       = filter (\<lambda>t. ranking_key t = (- int (severity_order s), e)) ts"
    unfolding rank_tensions_def by (rule sort_key_stable)
  then have stable: "filter (\<lambda>t. severity t = s \<and> min_effort t = e) (rank_tensions ts)
       = filter (\<lambda>t. severity t = s \<and> min_effort t = e) ts"
    by (simp add: ranking_key_eq)
  have mn: "min_effort t =
       Min (insert (effort_order (effort (fst (alternatives t))))
              ((\<lambda>a. effort_order (effort a)) ` set (snd (alternatives t))))"
    by (cases "alternatives t") (simp add: min_effort_def fold_min_eq)
  from srt perm stable mn show ?thesis by blast
qed

text \<open>The ordering example of the spec, with a later tension that ties with the medium one.\<close>

theorem rank_tensions_sorted_stable_witness:
  "rank_tensions [medium_small, high_large, medium_small_later]
     = [high_large, medium_small, medium_small_later]
   \<and> filter (\<lambda>t. severity t = Severity.MEDIUM \<and> min_effort t = 1)
        (rank_tensions [medium_small, high_large, medium_small_later])
     = [medium_small, medium_small_later]
   \<and> min_effort medium_small = 1"
  using rank_tensions_sorted_stable
          [of "[medium_small, high_large, medium_small_later]" Severity.MEDIUM 1 medium_small]
  by (simp add: rank_tensions_def ranking_key_def min_effort_def high_large_def medium_small_def
      medium_small_later_def less_eq_prod_def)

section \<open>Confidence of reported patterns\<close>

lemma clip_bounds: "0 \<le> clip x \<and> clip x \<le> 1"
  by (simp add: clip_def)

text \<open>
  Claim C6. Every pattern in the output of the Pattern Detector has a confidence between 0
  and 1, which is the normalized weighted sum of the fired signals of its evidence clipped
  to that interval, and the confidence exceeds the threshold configured for its pattern
  type: 0.5 when the configuration sets none.
\<close>

theorem detected_pattern_confidence:
  assumes "p \<in> set (detect_patterns config normalized evidence)"
  shows "0 \<le> confidence p \<and> confidence p \<le> 1
         \<and> threshold config (DetectedPattern.pattern_type p) < confidence p
         \<and> (confidence_thresholds config (DetectedPattern.pattern_type p) = None
               \<longrightarrow> 0.5 < confidence p)
         \<and> (\<exists>ev \<in> set evidence.
               DetectedPattern.pattern_type p = Evidence.pattern_type ev
               \<and> confidence p =
                   max 0 (min 1 (normalized (Evidence.pattern_type ev)
                                    (sum_list (map weight (fired ev))))))"
proof -
  from assms obtain ev where ev: "ev \<in> set evidence"
    and p: "p \<in> set (report_pattern config normalized ev)"
    by (auto simp: detect_patterns_def)
  from p have en: "threshold config (Evidence.pattern_type ev) < pattern_confidence normalized ev"
    and eq: "p = \<lparr>DetectedPattern.pattern_type = Evidence.pattern_type ev,
             category = Evidence.category ev,
             tables = Evidence.tables ev,
             confidence = pattern_confidence normalized ev,
             signals = fired ev\<rparr>"
    by (auto simp: report_pattern_def split: if_splits)
  have c: "confidence p = pattern_confidence normalized ev"
    and t: "DetectedPattern.pattern_type p = Evidence.pattern_type ev"
    by (simp_all add: eq)
  have b: "0 \<le> confidence p \<and> confidence p \<le> 1"
    unfolding c pattern_confidence_def by (rule clip_bounds)
  have th: "threshold config (DetectedPattern.pattern_type p) < confidence p"
    using en by (simp add: c t)
  then have d: "confidence_thresholds config (DetectedPattern.pattern_type p) = None
                  \<longrightarrow> 0.5 < confidence p"
    by (auto simp: threshold_def)
  have "confidence p =
          max 0 (min 1 (normalized (Evidence.pattern_type ev) (sum_list (map weight (fired ev)))))"
    by (simp add: c pattern_confidence_def clip_def weighted_sum_def)
  with ev t have ex: "\<exists>ev \<in> set evidence.
               DetectedPattern.pattern_type p = Evidence.pattern_type ev
               \<and> confidence p =
                   max 0 (min 1 (normalized (Evidence.pattern_type ev)
                                    (sum_list (map weight (fired ev)))))"
    by blast
  from b th d ex show ?thesis by blast
qed

text \<open>Of two candidates under the default threshold, the one of confidence 0.3 is dropped and the one of confidence 0.9 is reported.\<close>

theorem detected_pattern_confidence_witness:
  "detect_patterns default_config (\<lambda>p x. x) [weak_evidence, soft_delete_evidence]
     = [\<lparr>DetectedPattern.pattern_type = ''soft_delete'', category = (),
         tables = [''public.users''], confidence = 9 / 10,
         signals = fired soft_delete_evidence\<rparr>]
   \<and> (0::real) \<le> 9 / 10 \<and> (9 / 10 :: real) \<le> 1
   \<and> threshold default_config ''soft_delete'' < 9 / 10
   \<and> (1 / 2 :: real) < 9 / 10"
proof -
  have out: "detect_patterns default_config (\<lambda>p x. x) [weak_evidence, soft_delete_evidence]
     = [\<lparr>DetectedPattern.pattern_type = ''soft_delete'', category = (),
         tables = [''public.users''], confidence = 9 / 10,
         signals = fired soft_delete_evidence\<rparr>]"
    by (simp add: detect_patterns_def report_pattern_def pattern_confidence_def clip_def
        weighted_sum_def threshold_def default_config_def weak_evidence_def
        soft_delete_evidence_def)
  then have "\<lparr>DetectedPattern.pattern_type = ''soft_delete'', category = (),
         tables = [''public.users''], confidence = 9 / 10,
         signals = fired soft_delete_evidence\<rparr>
       \<in> set (detect_patterns default_config (\<lambda>p x. x) [weak_evidence, soft_delete_evidence])"
    by simp
  from detected_pattern_confidence [OF this] out show ?thesis
    by simp
qed

end
